theory Spec2Isabelle
  imports Complex_Main
begin

section \<open>Exceptions of the notebook code\<close>

text \<open>
  The notebook \<^verbatim>\<open>exercises/xt3d/xt3d-ex0-unstructured-grid.ipynb\<close> is Python. A float
  division by zero raises \<^verbatim>\<open>ZeroDivisionError\<close>, arithmetic on \<^verbatim>\<open>None\<close> raises
  \<^verbatim>\<open>TypeError\<close>. Floats are modelled as exact reals.
\<close>

datatype py_error = ZeroDivisionError | TypeError

section \<open>Head gradient from the anisotropic conductivity tensor\<close>

text \<open>
  \<^verbatim>\<open>kxx = k * math.cos(angle) ** 2 + k22 * math.sin(angle) ** 2\<close>,
  \<^verbatim>\<open>kyy = k * math.sin(angle) ** 2 + k22 * math.cos(angle) ** 2\<close>,
  \<^verbatim>\<open>kxy = (k - k22) * math.sin(angle) * math.cos(angle)\<close>.
\<close>

definition tensor_kxx :: "real \<Rightarrow> real \<Rightarrow> real \<Rightarrow> real" where
  "tensor_kxx k k22 angle = k * (cos angle)\<^sup>2 + k22 * (sin angle)\<^sup>2"

definition tensor_kyy :: "real \<Rightarrow> real \<Rightarrow> real \<Rightarrow> real" where
  "tensor_kyy k k22 angle = k * (sin angle)\<^sup>2 + k22 * (cos angle)\<^sup>2"

definition tensor_kxy :: "real \<Rightarrow> real \<Rightarrow> real \<Rightarrow> real" where
  "tensor_kxy k k22 angle = (k - k22) * sin angle * cos angle"

text \<open>
  \<^verbatim>\<open>def hgrad(k, k22, angle1, qx, qy)\<close>. The first of the four divisions by \<^verbatim>\<open>det\<close>
  raises when \<^verbatim>\<open>det\<close> is zero; otherwise the pair \<^verbatim>\<open>(hgradx, hgrady)\<close> is returned.
\<close>

definition hgrad :: "real \<Rightarrow> real \<Rightarrow> real \<Rightarrow> real \<Rightarrow> real \<Rightarrow> py_error + real \<times> real" where
  "hgrad k k22 angle1 qx qy =
     (let angle = angle1 * pi / 180;
          kxx = tensor_kxx k k22 angle;
          kyy = tensor_kyy k k22 angle;
          kxy = tensor_kxy k k22 angle;
          kyx = kxy;
          det = kxx * kyy - kxy * kyx
      in if det = 0 then Inl ZeroDivisionError
         else
           (let kinvxx = kyy / det;
                kinvxy = - kxy / det;
                kinvyx = - kyx / det;
                kinvyy = kxx / det;
                hgradx = - kinvxx * qx - kinvxy * qy;
                hgrady = - kinvyx * qx - kinvyy * qy
            in Inr (hgradx, hgrady)))"

section \<open>The head gradient in double precision\<close>

text \<open>
  Python floats are IEEE binary64 numbers. A finite double is modelled by the real
  number it denotes. \<open>rne\<close> rounds a real to the nearest integer, ties to the even one;
  \<open>expo\<close> is the binary exponent of the interval a real lies in, fixed at \<open>- 1022\<close> in
  the subnormal range; \<open>ulp\<close> is the spacing of the doubles there (52 fraction bits);
  \<open>fl\<close> rounds a real to the nearest point of that spacing.
\<close>

definition rne :: "real \<Rightarrow> int" where
  "rne r =
     (let f = \<lfloor>r\<rfloor>; d = r - of_int f
      in if d < 1 / 2 then f else if 1 / 2 < d then f + 1 else if even f then f else f + 1)"

definition expo :: "real \<Rightarrow> int" where
  "expo x = (if \<bar>x\<bar> < 2 powr (- 1022) then - 1022 else \<lfloor>log 2 \<bar>x\<bar>\<rfloor>)"

definition ulp :: "real \<Rightarrow> real" where
  "ulp x = 2 powr (of_int (expo x - 52))"

definition fl :: "real \<Rightarrow> real" where
  "fl x = of_int (rne (x / ulp x)) * ulp x"

text \<open>
  An operation whose rounded result is beyond the largest double gives an infinity in
  Python (or \<^verbatim>\<open>OverflowError\<close>, from \<^verbatim>\<open>**\<close>), and later operations may give a NaN. The
  model stops there with \<open>Out_of_range\<close> and says nothing about what follows.
\<close>

datatype fp_error = Raised py_error | Out_of_range

definition chk :: "real \<Rightarrow> fp_error + real" where
  "chk y = (if \<bar>y\<bar> < 2 ^ 1024 then Inr y else Inl Out_of_range)"

definition rd :: "real \<Rightarrow> fp_error + real" where
  "rd x = chk (fl x)"

definition bind_d :: "fp_error + 'a \<Rightarrow> ('a \<Rightarrow> fp_error + 'b) \<Rightarrow> fp_error + 'b" where
  "bind_d r f = (case r of Inl e \<Rightarrow> Inl e | Inr v \<Rightarrow> f v)"

definition add_d :: "real \<Rightarrow> real \<Rightarrow> fp_error + real" where
  "add_d x y = rd (x + y)"

definition sub_d :: "real \<Rightarrow> real \<Rightarrow> fp_error + real" where
  "sub_d x y = rd (x - y)"

definition mul_d :: "real \<Rightarrow> real \<Rightarrow> fp_error + real" where
  "mul_d x y = rd (x * y)"

text \<open>Python's float division raises when the divisor is zero.\<close>

definition div_d :: "real \<Rightarrow> real \<Rightarrow> fp_error + real" where
  "div_d x y = (if y = 0 then Inl (Raised ZeroDivisionError) else rd (x / y))"

text \<open>
  \<^verbatim>\<open>math.cos\<close>, \<^verbatim>\<open>math.sin\<close> and the power function behind \<^verbatim>\<open>x ** 2\<close> come from the C
  library, which is not part of the repository: they are parameters. \<open>libm_rounded\<close> is
  the library that returns the correctly rounded value of each. \<^verbatim>\<open>math.pi\<close> is the double
  nearest to \<open>pi\<close>.
\<close>

record libm =
  math_cos :: "real \<Rightarrow> real"
  math_sin :: "real \<Rightarrow> real"
  float_pow2 :: "real \<Rightarrow> real"

definition libm_rounded :: libm where
  "libm_rounded =
     \<lparr>math_cos = (\<lambda>x. fl (cos x)), math_sin = (\<lambda>x. fl (sin x)),
      float_pow2 = (\<lambda>x. fl (x * x))\<rparr>"

definition math_pi :: real where
  "math_pi = fl pi"

text \<open>
  \<^verbatim>\<open>hgrad\<close> again, one rounded operation at a time in Python's order of evaluation.
  The lines of the source are, in turn: \<^verbatim>\<open>angle\<close> (2 operations), \<^verbatim>\<open>kxx\<close> (7),
  \<^verbatim>\<open>kyy\<close> (7), \<^verbatim>\<open>kxy\<close> (5), \<^verbatim>\<open>kyx\<close>, \<^verbatim>\<open>det\<close> (3), the four divisions, \<^verbatim>\<open>hgradx\<close> (3)
  and \<^verbatim>\<open>hgrady\<close> (3). The arguments are doubles; negation is exact.
\<close>

definition hgrad_double ::
  "libm \<Rightarrow> real \<Rightarrow> real \<Rightarrow> real \<Rightarrow> real \<Rightarrow> real \<Rightarrow> fp_error + real \<times> real" where
  "hgrad_double L k k22 angle1 qx qy =
     bind_d (mul_d angle1 math_pi) (\<lambda>t.
     bind_d (div_d t 180) (\<lambda>angle.
     bind_d (chk (math_cos L angle)) (\<lambda>c.
     bind_d (chk (float_pow2 L c)) (\<lambda>c2.
     bind_d (mul_d k c2) (\<lambda>a1.
     bind_d (chk (math_sin L angle)) (\<lambda>s.
     bind_d (chk (float_pow2 L s)) (\<lambda>s2.
     bind_d (mul_d k22 s2) (\<lambda>a2.
     bind_d (add_d a1 a2) (\<lambda>kxx.
     bind_d (chk (math_sin L angle)) (\<lambda>s.
     bind_d (chk (float_pow2 L s)) (\<lambda>s2.
     bind_d (mul_d k s2) (\<lambda>b1.
     bind_d (chk (math_cos L angle)) (\<lambda>c.
     bind_d (chk (float_pow2 L c)) (\<lambda>c2.
     bind_d (mul_d k22 c2) (\<lambda>b2.
     bind_d (add_d b1 b2) (\<lambda>kyy.
     bind_d (sub_d k k22) (\<lambda>d.
     bind_d (chk (math_sin L angle)) (\<lambda>s.
     bind_d (mul_d d s) (\<lambda>ds.
     bind_d (chk (math_cos L angle)) (\<lambda>c.
     bind_d (mul_d ds c) (\<lambda>kxy.
     let kyx = kxy in
     bind_d (mul_d kxx kyy) (\<lambda>p1.
     bind_d (mul_d kxy kyx) (\<lambda>p2.
     bind_d (sub_d p1 p2) (\<lambda>det.
     bind_d (div_d kyy det) (\<lambda>kinvxx.
     bind_d (div_d (- kxy) det) (\<lambda>kinvxy.
     bind_d (div_d (- kyx) det) (\<lambda>kinvyx.
     bind_d (div_d kxx det) (\<lambda>kinvyy.
     bind_d (mul_d (- kinvxx) qx) (\<lambda>h1.
     bind_d (mul_d kinvxy qy) (\<lambda>h2.
     bind_d (sub_d h1 h2) (\<lambda>hgradx.
     bind_d (mul_d (- kinvyx) qx) (\<lambda>h3.
     bind_d (mul_d kinvyy qy) (\<lambda>h4.
     bind_d (sub_d h3 h4) (\<lambda>hgrady.
     Inr (hgradx, hgrady)))))))))))))))))))))))))))))))))))"

section \<open>The two structured grids and their merge\<close>

text \<open>
  \<^verbatim>\<open>flopy.discretization.StructuredGrid(delr=, delc=, top=, botm=, xoff=, yoff=, idomain=)\<close>:
  the keyword arguments the notebook passes. An offset that is not passed is \<open>None\<close>.
\<close>

record structured_grid =
  delr :: "real list"
  delc :: "real list"
  top_arr :: "real list list"
  botm_arr :: "real list list list"
  xoff :: "real option"
  yoff :: "real option"
  idomain :: "real list list list"

definition np_ones1 :: "nat \<Rightarrow> real list" where
  "np_ones1 n = replicate n 1"

definition np_zeros2 :: "nat \<Rightarrow> nat \<Rightarrow> real list list" where
  "np_zeros2 nrow ncol = replicate nrow (replicate ncol 0)"

definition np_ones3 :: "nat \<Rightarrow> nat \<Rightarrow> nat \<Rightarrow> real list list list" where
  "np_ones3 nlay nrow ncol = replicate nlay (replicate nrow (replicate ncol 1))"

definition scale1 :: "real \<Rightarrow> real list \<Rightarrow> real list" where
  "scale1 a xs = map (\<lambda>x. a * x) xs"

definition scale3 :: "real \<Rightarrow> real list list list \<Rightarrow> real list list list" where
  "scale3 a xs = map (map (map (\<lambda>x. a * x))) xs"

text \<open>\<^verbatim>\<open>idomain[:, r0:r1, c0:c1] = v\<close> on a three-dimensional array.\<close>

definition assign_block ::
  "nat \<Rightarrow> nat \<Rightarrow> nat \<Rightarrow> nat \<Rightarrow> real \<Rightarrow> real list list list \<Rightarrow> real list list list" where
  "assign_block r0 r1 c0 c1 v arr =
     map (\<lambda>layer.
       map (\<lambda>(r, row).
         map (\<lambda>(c, x). if r0 \<le> r \<and> r < r1 \<and> c0 \<le> c \<and> c < c1 then v else x)
           (enumerate 0 row))
         (enumerate 0 layer)) arr"

text \<open>Outer grid: \<^verbatim>\<open>nlay = 1; nrow = ncol = 7\<close>, cells of 100 by 100, a 3 by 3 hole.\<close>

definition sg1 :: structured_grid where
  "sg1 =
     (let nlay = 1; nrow = 7; ncol = 7;
          delr = scale1 100 (np_ones1 ncol);
          delc = scale1 100 (np_ones1 nrow);
          tp = np_zeros2 nrow ncol;
          bt = scale3 (- 100) (np_ones3 nlay nrow ncol);
          idomain = assign_block 2 5 2 5 0 (np_ones3 nlay nrow ncol)
      in \<lparr>delr = delr, delc = delc, top_arr = tp, botm_arr = bt,
          xoff = None, yoff = None, idomain = idomain\<rparr>)"

text \<open>Inner grid: \<^verbatim>\<open>nrow = ncol = 9\<close>, cells of 100/3, placed at offset (200, 200).\<close>

definition sg2 :: structured_grid where
  "sg2 =
     (let nlay = 1; nrow = 9; ncol = 9;
          delr = scale1 (100 / 3) (np_ones1 ncol);
          delc = scale1 (100 / 3) (np_ones1 nrow);
          tp = np_zeros2 nrow ncol;
          bt = scale3 (- 100) (np_ones3 nlay nrow ncol);
          idomain = np_ones3 nlay nrow ncol
      in \<lparr>delr = delr, delc = delc, top_arr = tp, botm_arr = bt,
          xoff = Some 200, yoff = Some 200, idomain = idomain\<rparr>)"

text \<open>
  \<^verbatim>\<open>gridprops = flopy.utils.cvfdutil.gridlist_to_disv_gridprops([sg1, sg2])\<close>. The
  library function is not part of the repository; it is the parameter
  \<open>gridlist_to_disv_gridprops\<close>, and its result type \<open>'gp\<close> is left open.

  \<open>mesh_cells\<close> runs the notebook cells from the outer grid to the merge, in their
  order, and records every library call that creates or merges a grid description.
  These are all the calls of that kind in the notebook.
\<close>

datatype mesh_call =
    StructuredGrid structured_grid
  | Gridlist_to_disv_gridprops "structured_grid list"

definition mesh_cells :: "(structured_grid list \<Rightarrow> 'gp) \<Rightarrow> mesh_call list \<times> 'gp" where
  "mesh_cells gridlist_to_disv_gridprops =
     (let calls = [];
          g1 = sg1; calls = calls @ [StructuredGrid g1];
          g2 = sg2; calls = calls @ [StructuredGrid g2];
          gp = gridlist_to_disv_gridprops [g1, g2];
          calls = calls @ [Gridlist_to_disv_gridprops [g1, g2]]
      in (calls, gp))"

definition gridprops :: "(structured_grid list \<Rightarrow> 'gp) \<Rightarrow> 'gp" where
  "gridprops gridlist_to_disv_gridprops = snd (mesh_cells gridlist_to_disv_gridprops)"

text \<open>
  The notebook globals that \<^verbatim>\<open>build_sim\<close> hands to the DISV package besides
  \<^verbatim>\<open>gridprops\<close>: \<^verbatim>\<open>length_units = "meters"\<close>, \<^verbatim>\<open>nlay = 1\<close> (assigned in both grid
  cells), \<^verbatim>\<open>top = 0.0\<close> and \<^verbatim>\<open>botm = -100.0\<close> (assigned in the outer-grid cell). The
  global \<^verbatim>\<open>top\<close> is written \<open>top_elev\<close>.
\<close>

definition length_units :: string where
  "length_units = ''meters''"

definition nlay :: nat where
  "nlay = 1"

definition top_elev :: real where
  "top_elev = 0"

definition botm :: real where
  "botm = - 100"

section \<open>Packages, model and simulation\<close>

text \<open>
  Each FloPy package constructor the notebook calls, with the keyword arguments it
  passes, in the order of the call.
  \<^item> \<open>ModflowTdis\<close>: nper, perioddata, time_units
  \<^item> \<open>ModflowIms\<close>: linear_acceleration, outer_maximum, outer_dvclose, inner_maximum,
    inner_dvclose, rcloserecord (the value \<^verbatim>\<open>rclose\<close> and the word after it)
  \<^item> \<open>ModflowGwfdisv\<close>: length_units, nlay, top, botm, and the unpacked \<^verbatim>\<open>**gridprops\<close>
  \<^item> \<open>ModflowGwfnpf\<close>: icelltype, k, save_specific_discharge, xt3doptions
  \<^item> \<open>ModflowGwfic\<close>: strt
  \<^item> \<open>ModflowGwfchd\<close>: stress_period_data (period, then records of layer, cell, head),
    pname, filename
  \<^item> \<open>ModflowGwfoc\<close>: head_filerecord, budget_filerecord, saverecord
\<close>

datatype 'gp package =
    ModflowTdis nat "(real \<times> nat \<times> real) list" string
  | ModflowIms string nat real nat real "real \<times> string"
  | ModflowGwfdisv string nat real real 'gp
  | ModflowGwfnpf int real bool "string option"
  | ModflowGwfic real
  | ModflowGwfchd "(nat \<times> (nat \<times> nat \<times> real) list) list" string string
  | ModflowGwfoc string string "(string \<times> string) list"

text \<open>A package constructor registers the new package with its parent.\<close>

record 'gp gwf =
  modelname :: string
  save_flows :: bool
  packages :: "'gp package list"

record 'gp simulation =
  sim_name :: string
  sim_ws :: string
  exe_name :: string
  sim_packages :: "'gp package list"
  models :: "'gp gwf list"

definition register :: "'gp package \<Rightarrow> 'gp gwf \<Rightarrow> 'gp gwf" where
  "register p g = g\<lparr>packages := packages g @ [p]\<rparr>"

definition example_name :: string where
  "example_name = ''xt3d-ex0-unstructured-grid''"

definition model_name :: string where
  "model_name = ''gwf''"

section \<open>Constant-head boundary packages\<close>

text \<open>
  The four hardwired cell lists of \<^verbatim>\<open>add_chds\<close>.
\<close>

definition left_cells :: "nat list" where
  "left_cells = [0, 7, 14, 18, 22, 26, 33]"

definition right_cells :: "nat list" where
  "right_cells = [6, 13, 17, 21, 25, 32, 39]"

definition top_cells :: "nat list" where
  "top_cells = [1, 2, 3, 4, 5]"

definition bottom_cells :: "nat list" where
  "bottom_cells = [34, 35, 36, 37, 38]"

text \<open>
  \<^verbatim>\<open>def add_chds(gwf, hgradx=None, hgrady=None)\<close>. The branch is chosen on \<^verbatim>\<open>hgradx\<close>
  alone; with \<^verbatim>\<open>hgradx\<close> given and \<^verbatim>\<open>hgrady\<close> left \<^verbatim>\<open>None\<close> the computation of
  \<^verbatim>\<open>hconst\<close> raises before any package is created.
\<close>

definition add_chds :: "'gp gwf \<Rightarrow> real option \<Rightarrow> real option \<Rightarrow> py_error + 'gp gwf" where
  "add_chds g hgradx hgrady =
     (case hgradx of
        None \<Rightarrow>
          (let chd_spd = [] @ map (\<lambda>i. (0, i, 1)) left_cells;
               g = register (ModflowGwfchd [(0, chd_spd)] ''CHD-LEFT'' (model_name @ ''.left.chd'')) g;
               chd_spd = [] @ map (\<lambda>i. (0, i, 0)) right_cells;
               g = register (ModflowGwfchd [(0, chd_spd)] ''CHD-RIGHT'' (model_name @ ''.right.chd'')) g
           in Inr g)
      | Some gx \<Rightarrow>
          (case hgrady of
             None \<Rightarrow> Inl TypeError
           | Some gy \<Rightarrow>
               (let hconst = gx * 50 + gy * 50 - 1;
                    chd_spd = map (\<lambda>(irow, i).
                        let x = 50; y = (6 - int irow) * 100 + 50;
                            head = gx * of_int x + gy * of_int y - hconst
                        in (0, i, head)) (enumerate 0 left_cells);
                    g = register (ModflowGwfchd [(0, chd_spd)] ''CHD-LEFT'' (model_name @ ''.left.chd'')) g;
                    chd_spd = map (\<lambda>(irow, i).
                        let x = 650; y = (6 - int irow) * 100 + 50;
                            head = gx * of_int x + gy * of_int y - hconst
                        in (0, i, head)) (enumerate 0 right_cells);
                    g = register (ModflowGwfchd [(0, chd_spd)] ''CHD-RIGHT'' (model_name @ ''.right.chd'')) g;
                    chd_spd = map (\<lambda>(jcol, i).
                        let x = int jcol * 100 + 150; y = 650;
                            head = gx * of_int x + gy * of_int y - hconst
                        in (0, i, head)) (enumerate 0 top_cells);
                    g = register (ModflowGwfchd [(0, chd_spd)] ''CHD-TOP'' (model_name @ ''.top.chd'')) g;
                    chd_spd = map (\<lambda>(jcol, i).
                        let x = int jcol * 100 + 150; y = 50;
                            head = gx * of_int x + gy * of_int y - hconst
                        in (0, i, head)) (enumerate 0 bottom_cells);
                    g = register (ModflowGwfchd [(0, chd_spd)] ''CHD-BOTTOM'' (model_name @ ''.bottom.chd'')) g
                in Inr g)))"

text \<open>The records, cells and heads a constant-head package prescribes.\<close>

definition chd_records :: "'gp package \<Rightarrow> (nat \<times> nat \<times> real) list" where
  "chd_records p =
     (case p of ModflowGwfchd spd pname filename \<Rightarrow> concat (map snd spd) | _ \<Rightarrow> [])"

definition chd_cells :: "'gp package \<Rightarrow> nat list" where
  "chd_cells p = map (\<lambda>(lay, cell, head). cell) (chd_records p)"

definition chd_heads :: "'gp package \<Rightarrow> real list" where
  "chd_heads p = map (\<lambda>(lay, cell, head). head) (chd_records p)"

definition chd_pname :: "'gp package \<Rightarrow> string" where
  "chd_pname p = (case p of ModflowGwfchd spd pname filename \<Rightarrow> pname | _ \<Rightarrow> [])"

section \<open>Building the simulation\<close>

text \<open>
  \<^verbatim>\<open>def build_sim(hgradx=None, hgrady=None)\<close>. The notebook globals it reads are
  constants of the notebook, except \<^verbatim>\<open>xt3doptions\<close>, which the last cell reassigns
  before it calls \<^verbatim>\<open>build_sim\<close> again, and \<^verbatim>\<open>gridprops\<close>, which comes from the library
  call; both are parameters.
  \<^verbatim>\<open>tdis_ds = list(zip(perlen, nstp, tsmult))\<close> is the single
  triple \<open>(1, 1, 1)\<close>.
\<close>

definition tdis_ds :: "(real \<times> nat \<times> real) list" where
  "tdis_ds = map (\<lambda>(p, n, t). (p, n, t)) (zip [1] (zip [1] [1, 1, 1]))"

definition build_sim ::
  "(structured_grid list \<Rightarrow> 'gp) \<Rightarrow> string option \<Rightarrow> real option \<Rightarrow> real option
     \<Rightarrow> py_error + 'gp simulation" where
  "build_sim gridlist_to_disv_gridprops xt3doptions hgradx hgrady =
     (let nper = 1; nouter = 50; ninner = 100; hclose = 1 / 10 ^ 9; rclose = 1 / 10 ^ 6;
          icelltype = 0; k11 = 1; strt = 0;
          sim = \<lparr>sim_name = example_name, sim_ws = example_name, exe_name = ''mf6'',
                 sim_packages = [], models = []\<rparr>;
          sim = sim\<lparr>sim_packages := sim_packages sim @ [ModflowTdis nper tdis_ds ''days'']\<rparr>;
          sim = sim\<lparr>sim_packages := sim_packages sim @
                  [ModflowIms ''bicgstab'' nouter hclose ninner hclose (rclose, ''strict'')]\<rparr>;
          g = \<lparr>modelname = model_name, save_flows = True, packages = []\<rparr>;
          g = register (ModflowGwfdisv length_units nlay top_elev botm
                          (gridprops gridlist_to_disv_gridprops)) g;
          g = register (ModflowGwfnpf icelltype k11 True xt3doptions) g;
          g = register (ModflowGwfic strt) g
      in case add_chds g hgradx hgrady of
           Inl e \<Rightarrow> Inl e
         | Inr g \<Rightarrow>
             (let head_filerecord = model_name @ ''.hds'';
                  budget_filerecord = model_name @ ''.cbc'';
                  g = register (ModflowGwfoc head_filerecord budget_filerecord
                                  [(''HEAD'', ''ALL''), (''BUDGET'', ''ALL'')]) g
              in Inr (sim\<lparr>models := models sim @ [g]\<rparr>)))"

text \<open>
  The mesh data that reach the DISV packages of a simulation: every argument of the
  DISV call that describes the mesh (\<^verbatim>\<open>length_units\<close> names a unit and is not one).
\<close>

datatype 'gp mesh_datum = Nlay nat | Top real | Botm real | Gridprops 'gp

definition disv_mesh_data :: "'gp package \<Rightarrow> 'gp mesh_datum list" where
  "disv_mesh_data p =
     (case p of
        ModflowGwfdisv lu n tp bt gp \<Rightarrow> [Nlay n, Top tp, Botm bt, Gridprops gp]
      | _ \<Rightarrow> [])"

definition mesh_data :: "'gp simulation \<Rightarrow> 'gp mesh_datum list" where
  "mesh_data sim =
     concat (map disv_mesh_data (sim_packages sim @ concat (map packages (models sim))))"

section \<open>The analytic head of the error plot\<close>

text \<open>
  \<^verbatim>\<open>plot_results(hgradx=None, hgrady=None)\<close> computes \<^verbatim>\<open>heada\<close> elementwise from the
  cell centres; \<open>heada\<close> is that computation at one cell centre \<open>(xc, yc)\<close>.
\<close>

definition heada :: "real option \<Rightarrow> real option \<Rightarrow> real \<Rightarrow> real \<Rightarrow> py_error + real" where
  "heada hgradx hgrady xc yc =
     (case hgradx of
        None \<Rightarrow>
          (let x = xc - 50;
               slp = (1 - 0) / (50 - 650)
           in Inr (slp * x + 1))
      | Some gx \<Rightarrow>
          (case hgrady of
             None \<Rightarrow> Inl TypeError
           | Some gy \<Rightarrow>
               (let hconst = gx * 50 + gy * 50 - 1;
                    x = xc;
                    y = yc
                in Inr (gx * x + gy * y - hconst))))"

section \<open>The batch script\<close>

text \<open>The lines of \<^verbatim>\<open>data/parallel/slurm.batch\<close>, as they are in the file.\<close>

definition slurm_batch :: "string list" where
  "slurm_batch =
    [''#!/bin/bash'',
     '''',
     ''#SBATCH --job-name=1803_1804'',
     ''#SBATCH --nodes=1'',
     ''#SBATCH --ntasks=1'',
     ''#SBATCH --account=impd'',
     ''#SBATCH --time=00:10:00'',
     ''#SBATCH --output=slurm-%j.out'',
     ''#SBATCH --mail-type=FAIL'',
     ''#SBATCH --mail-user=jdhughes@usgs.gov'',
     '''',
     ''# load appropriate modules'',
     ''module load modflow/6.6.0.dev0'',
     '''',
     ''# run model'',
     ''srun mf6 -p'',
     '''',
     ''zip ../../archive/1803_1804_001p_$(date -Ihours) ngwm.ims mfsim.lst ims.inner.csv'']"

subsection \<open>Reading the script\<close>

definition starts_with :: "string \<Rightarrow> string \<Rightarrow> bool" where
  "starts_with p s = (take (length p) s = p)"

definition is_blank :: "string \<Rightarrow> bool" where
  "is_blank s = (dropWhile (\<lambda>c. c = CHR '' '') s = [])"

definition is_comment :: "string \<Rightarrow> bool" where
  "is_comment s = starts_with ''#'' (dropWhile (\<lambda>c. c = CHR '' '') s)"

text \<open>A line the shell executes: neither blank nor a comment.\<close>

definition is_command_line :: "string \<Rightarrow> bool" where
  "is_command_line s = (\<not> is_blank s \<and> \<not> is_comment s)"

text \<open>Split at the first occurrence of a character.\<close>

fun split_at :: "char \<Rightarrow> string \<Rightarrow> string \<times> string" where
  "split_at d [] = ([], [])"
| "split_at d (c # cs) =
     (if c = d then ([], cs) else (let (a, b) = split_at d cs in (c # a, b)))"

text \<open>
  The scheduler takes its options from the \<^verbatim>\<open>#SBATCH --key=value\<close> comment lines that
  come before the first command of the script.
\<close>

definition sbatch_directives :: "string list \<Rightarrow> (string \<times> string) list" where
  "sbatch_directives ls =
     map (\<lambda>l. split_at CHR ''='' (drop (length ''#SBATCH --'') l))
       (filter (starts_with ''#SBATCH --'') (takeWhile (\<lambda>l. \<not> is_command_line l) ls))"

definition directive_values :: "string \<Rightarrow> (string \<times> string) list \<Rightarrow> string list" where
  "directive_values key ds = map snd (filter (\<lambda>kv. fst kv = key) ds)"

text \<open>
  Words of a command line: separated by spaces, except inside the parentheses of a
  command substitution. \<open>depth\<close> counts the open parentheses, \<open>w\<close> is the word read
  so far.
\<close>

fun shell_words :: "nat \<Rightarrow> string \<Rightarrow> string \<Rightarrow> string list" where
  "shell_words depth w [] = (if w = [] then [] else [w])"
| "shell_words depth w (c # cs) =
     (if c = CHR '' '' \<and> depth = 0
        then (if w = [] then shell_words 0 [] cs else w # shell_words 0 [] cs)
      else if c = CHR ''('' then shell_words (Suc depth) (w @ [c]) cs
      else if c = CHR '')'' then shell_words (depth - 1) (w @ [c]) cs
      else shell_words depth (w @ [c]) cs)"

definition script_commands :: "string list \<Rightarrow> string list list" where
  "script_commands ls = map (shell_words 0 []) (filter is_command_line ls)"

definition is_srun :: "string list \<Rightarrow> bool" where
  "is_srun cmd = (take 1 cmd = [''srun''])"

definition is_zip :: "string list \<Rightarrow> bool" where
  "is_zip cmd = (take 1 cmd = [''zip''])"

definition is_module_load :: "string list \<Rightarrow> bool" where
  "is_module_load cmd = (take 2 cmd = [''module'', ''load''])"

subsection \<open>Command substitution\<close>

text \<open>
  The shell replaces \<^verbatim>\<open>$(command)\<close> in a word by the output of the command. What a
  command prints is the environment's: the parameter \<open>run\<close>.
\<close>

datatype subst_state = Plain | Dollar | InSubst string

fun expand :: "(string \<Rightarrow> string) \<Rightarrow> subst_state \<Rightarrow> string \<Rightarrow> string" where
  "expand run Plain [] = []"
| "expand run Dollar [] = ''$''"
| "expand run (InSubst cmd) [] = ''$('' @ cmd"
| "expand run Plain (c # cs) =
     (if c = CHR ''$'' then expand run Dollar cs else c # expand run Plain cs)"
| "expand run Dollar (c # cs) =
     (if c = CHR ''('' then expand run (InSubst []) cs
      else if c = CHR ''$'' then CHR ''$'' # expand run Dollar cs
      else CHR ''$'' # c # expand run Plain cs)"
| "expand run (InSubst cmd) (c # cs) =
     (if c = CHR '')'' then run cmd @ expand run Plain cs
      else expand run (InSubst (cmd @ [c])) cs)"

definition expand_command :: "(string \<Rightarrow> string) \<Rightarrow> string list \<Rightarrow> string list" where
  "expand_command run cmd = map (expand run Plain) cmd"

subsection \<open>The time limit\<close>

definition digit_value :: "char \<Rightarrow> nat option" where
  "digit_value c =
     (let n = (of_char c :: nat) in if 48 \<le> n \<and> n \<le> 57 then Some (n - 48) else None)"

fun parse_nat :: "nat \<Rightarrow> string \<Rightarrow> nat option" where
  "parse_nat acc [] = Some acc"
| "parse_nat acc (c # cs) =
     (case digit_value c of None \<Rightarrow> None | Some d \<Rightarrow> parse_nat (10 * acc + d) cs)"

definition parse_number :: "string \<Rightarrow> nat option" where
  "parse_number s = (if s = [] then None else parse_nat 0 s)"

text \<open>A limit written \<^verbatim>\<open>hours:minutes:seconds\<close>, in seconds.\<close>

definition time_limit_seconds :: "string \<Rightarrow> nat option" where
  "time_limit_seconds s =
     (let (h, r) = split_at CHR '':'' s; (m, sec) = split_at CHR '':'' r
      in case (parse_number h, parse_number m, parse_number sec) of
           (Some hh, Some mm, Some ss) \<Rightarrow> Some (hh * 3600 + mm * 60 + ss)
         | _ \<Rightarrow> None)"

subsection \<open>Paths\<close>

fun split_on :: "char \<Rightarrow> string \<Rightarrow> string \<Rightarrow> string list" where
  "split_on d w [] = [w]"
| "split_on d w (c # cs) = (if c = d then w # split_on d [] cs else split_on d (w @ [c]) cs)"

text \<open>The directory components of a path, and the path's last component.\<close>

definition dir_components :: "string \<Rightarrow> string list" where
  "dir_components p = butlast (split_on CHR ''/'' [] p)"

definition base_name :: "string \<Rightarrow> string" where
  "base_name p = last (split_on CHR ''/'' [] p)"

text \<open>A relative directory resolved against a working directory given by its components.\<close>

fun resolve :: "string list \<Rightarrow> string list \<Rightarrow> string list" where
  "resolve cwd [] = cwd"
| "resolve cwd (p # ps) =
     (if p = ''..'' then resolve (butlast cwd) ps
      else if p = ''.'' \<or> p = [] then resolve cwd ps
      else resolve (cwd @ [p]) ps)"

subsection \<open>Shell constructs that test or react to a command's failure\<close>

definition control_words :: "string list" where
  "control_words =
     [''if'', ''then'', ''elif'', ''else'', ''fi'', ''while'', ''until'', ''for'', ''do'',
      ''done'', ''case'', ''esac'', ''trap'', ''exit'', ''set'', ''||'', ''&&'', ''!'']"

definition error_handling_words :: "string list list \<Rightarrow> string list" where
  "error_handling_words cmds =
     filter (\<lambda>w. w \<in> set control_words \<or> w = ''$?'') (concat cmds)"

section \<open>Properties of the head-gradient calculation\<close>

text \<open>With \<open>s\<^sup>2 + c\<^sup>2 = 1\<close> the determinant of the rotated tensor is the product of the
  two principal conductivities.\<close>

lemma det_algebra:
  fixes k k22 s c :: real
  assumes "s\<^sup>2 + c\<^sup>2 = 1"
  shows "(k * c\<^sup>2 + k22 * s\<^sup>2) * (k * s\<^sup>2 + k22 * c\<^sup>2)
           - (k - k22) * s * c * ((k - k22) * s * c) = k * k22"
proof -
  have "(k * c\<^sup>2 + k22 * s\<^sup>2) * (k * s\<^sup>2 + k22 * c\<^sup>2)
           - (k - k22) * s * c * ((k - k22) * s * c)
        = k * k22 * (s\<^sup>2 + c\<^sup>2)\<^sup>2"
    by (simp add: power2_eq_square algebra_simps)
  also have "\<dots> = k * k22" by (simp only: assms) simp
  finally show ?thesis .
qed

lemma tensor_det_eq:
  "tensor_kxx k k22 angle * tensor_kyy k k22 angle
     - tensor_kxy k k22 angle * tensor_kxy k k22 angle = k * k22"
  unfolding tensor_kxx_def tensor_kyy_def tensor_kxy_def
  by (rule det_algebra) simp

text \<open>\<^verbatim>\<open>hgrad\<close> raises exactly when its local \<^verbatim>\<open>det\<close> is zero.\<close>

lemma hgrad_error_iff:
  "hgrad k k22 angle1 qx qy = Inl ZeroDivisionError
     \<longleftrightarrow> tensor_kxx k k22 (angle1 * pi / 180) * tensor_kyy k k22 (angle1 * pi / 180)
           - tensor_kxy k k22 (angle1 * pi / 180) * tensor_kxy k k22 (angle1 * pi / 180) = 0"
  by (simp add: hgrad_def Let_def)

lemma hgrad_eq:
  assumes "k * k22 \<noteq> 0"
  shows "hgrad k k22 angle1 qx qy =
     Inr (- (tensor_kyy k k22 (angle1 * pi / 180) / (k * k22)) * qx
            + tensor_kxy k k22 (angle1 * pi / 180) / (k * k22) * qy,
          tensor_kxy k k22 (angle1 * pi / 180) / (k * k22) * qx
            - tensor_kxx k k22 (angle1 * pi / 180) / (k * k22) * qy)"
proof -
  have d: "tensor_kxx k k22 (angle1 * pi / 180) * tensor_kyy k k22 (angle1 * pi / 180)
         - tensor_kxy k k22 (angle1 * pi / 180) * tensor_kxy k k22 (angle1 * pi / 180) = k * k22"
    by (rule tensor_det_eq)
  show ?thesis
    unfolding hgrad_def Let_def d using assms by simp
qed

text \<open>A symmetric 2 by 2 system with nonzero determinant has exactly the solution that the
  inverse matrix gives.\<close>

lemma solve_2x2:
  fixes a b d D :: real
  assumes det: "a * d - b * b = D" and nz: "D \<noteq> 0"
  shows "(qx = - (a * x + b * y) \<and> qy = - (b * x + d * y))
     \<longleftrightarrow> (x = - (d / D) * qx + b / D * qy \<and> y = b / D * qx - a / D * qy)"
proof
  assume h: "qx = - (a * x + b * y) \<and> qy = - (b * x + d * y)"
  have "- d * qx + b * qy = (a * d - b * b) * x"
    by (simp add: h algebra_simps)
  then have x: "- d * qx + b * qy = D * x" by (simp only: det)
  have "b * qx - a * qy = (a * d - b * b) * y"
    by (simp add: h algebra_simps)
  then have y: "b * qx - a * qy = D * y" by (simp only: det)
  have "x = (- d * qx + b * qy) / D" by (simp only: x) (simp add: nz)
  moreover have "y = (b * qx - a * qy) / D" by (simp only: y) (simp add: nz)
  ultimately show "x = - (d / D) * qx + b / D * qy \<and> y = b / D * qx - a / D * qy"
    by (simp add: diff_divide_distrib add_divide_distrib)
next
  assume h: "x = - (d / D) * qx + b / D * qy \<and> y = b / D * qx - a / D * qy"
  have x: "D * x = - d * qx + b * qy"
    using nz by (simp add: h field_simps)
  have y: "D * y = b * qx - a * qy"
    using nz by (simp add: h field_simps)
  have "D * (a * x + b * y) = a * (D * x) + b * (D * y)" by (simp add: algebra_simps)
  also have "\<dots> = - ((a * d - b * b) * qx)" by (simp add: x y algebra_simps)
  finally have 1: "D * (a * x + b * y) = D * (- qx)" by (simp add: det)
  have "D * (b * x + d * y) = b * (D * x) + d * (D * y)" by (simp add: algebra_simps)
  also have "\<dots> = - ((a * d - b * b) * qy)" by (simp add: x y algebra_simps)
  finally have 2: "D * (b * x + d * y) = D * (- qy)" by (simp add: det)
  from 1 nz have "a * x + b * y = - qx" by (simp only: mult_cancel_left) simp
  moreover from 2 nz have "b * x + d * y = - qy" by (simp only: mult_cancel_left) simp
  ultimately show "qx = - (a * x + b * y) \<and> qy = - (b * x + d * y)"
    by simp
qed

text \<open>The notebook's anisotropy angle of 45 degrees.\<close>

lemma angle45: "(45::real) * pi / 180 = pi / 4"
  by simp

lemma sin45_sq: "(sin (pi / 4))\<^sup>2 = 1 / 2"
  by (simp add: sin_45 power_divide)

lemma cos45_sq: "(cos (pi / 4))\<^sup>2 = 1 / 2"
  by (simp add: cos_45 power_divide)

lemma sincos45: "sin (pi / 4) * cos (pi / 4) = 1 / 2"
  by (simp add: sin_45 cos_45)

text \<open>
  Claim C1. For positive \<open>k\<close> and \<open>k22\<close> and any angle and flux, \<^verbatim>\<open>hgrad\<close> returns a pair
  \<open>(hgradx, hgrady)\<close> that satisfies Darcy's law \<open>q = - K grad h\<close> for the tensor with
  components \<open>Kxx\<close>, \<open>Kyy\<close>, \<open>Kxy = Kyx\<close> of the rotated principal conductivities, and every
  solution of that 2 by 2 system is this pair.
\<close>

theorem hgrad_solves_darcy:
  fixes k k22 angle1 qx qy :: real
  assumes "0 < k" and "0 < k22"
  shows "let a = angle1 * pi / 180;
             Kxx = k * (cos a)\<^sup>2 + k22 * (sin a)\<^sup>2;
             Kyy = k * (sin a)\<^sup>2 + k22 * (cos a)\<^sup>2;
             Kxy = (k - k22) * sin a * cos a;
             Kyx = Kxy
         in \<exists>hgradx hgrady.
              hgrad k k22 angle1 qx qy = Inr (hgradx, hgrady) \<and>
              qx = - (Kxx * hgradx + Kxy * hgrady) \<and>
              qy = - (Kyx * hgradx + Kyy * hgrady) \<and>
              (\<forall>x y. qx = - (Kxx * x + Kxy * y) \<and> qy = - (Kyx * x + Kyy * y)
                 \<longrightarrow> x = hgradx \<and> y = hgrady)"
proof -
  define a where "a = angle1 * pi / 180"
  define D where "D = k * k22"
  have nz: "D \<noteq> 0" using assms by (simp add: D_def)
  have det: "tensor_kxx k k22 a * tensor_kyy k k22 a
               - tensor_kxy k k22 a * tensor_kxy k k22 a = D"
    unfolding D_def by (rule tensor_det_eq)
  define gx where "gx = - (tensor_kyy k k22 a / D) * qx + tensor_kxy k k22 a / D * qy"
  define gy where "gy = tensor_kxy k k22 a / D * qx - tensor_kxx k k22 a / D * qy"
  have ret: "hgrad k k22 angle1 qx qy = Inr (gx, gy)"
    using hgrad_eq [of k k22 angle1 qx qy] nz by (simp add: D_def gx_def gy_def a_def)
  have sol: "(qx = - (tensor_kxx k k22 a * x + tensor_kxy k k22 a * y) \<and>
              qy = - (tensor_kxy k k22 a * x + tensor_kyy k k22 a * y))
             \<longleftrightarrow> (x = gx \<and> y = gy)" for x y
    unfolding gx_def gy_def by (rule solve_2x2 [OF det nz])
  have "\<exists>hgradx hgrady.
          hgrad k k22 angle1 qx qy = Inr (hgradx, hgrady) \<and>
          qx = - (tensor_kxx k k22 a * hgradx + tensor_kxy k k22 a * hgrady) \<and>
          qy = - (tensor_kxy k k22 a * hgradx + tensor_kyy k k22 a * hgrady) \<and>
          (\<forall>x y. qx = - (tensor_kxx k k22 a * x + tensor_kxy k k22 a * y) \<and>
                 qy = - (tensor_kxy k k22 a * x + tensor_kyy k k22 a * y)
             \<longrightarrow> x = hgradx \<and> y = hgrady)"
  proof (intro exI conjI allI impI)
    show "hgrad k k22 angle1 qx qy = Inr (gx, gy)" by (rule ret)
    from sol [of gx gy]
    show "qx = - (tensor_kxx k k22 a * gx + tensor_kxy k k22 a * gy)" by simp
    from sol [of gx gy]
    show "qy = - (tensor_kxy k k22 a * gx + tensor_kyy k k22 a * gy)" by simp
  next
    fix x y
    assume "qx = - (tensor_kxx k k22 a * x + tensor_kxy k k22 a * y) \<and>
            qy = - (tensor_kxy k k22 a * x + tensor_kyy k k22 a * y)"
    with sol [of x y] show "x = gx" and "y = gy" by simp_all
  qed
  then show ?thesis
    unfolding Let_def a_def tensor_kxx_def tensor_kyy_def tensor_kxy_def .
qed

text \<open>The call of the notebook's last cell: \<open>k = 1\<close>, \<open>k22 = 0.1\<close>, 45 degrees, unit flux
  over 600 in the x direction.\<close>

theorem hgrad_solves_darcy_witness:
  "(0::real) < 1 \<and> (0::real) < 1 / 10 \<and>
   hgrad 1 (1 / 10) 45 (1 / 600) 0 = Inr (- 11 / 1200, 3 / 400)"
proof -
  have kxx: "(1::real) * (cos (pi / 4))\<^sup>2 + 1 / 10 * (sin (pi / 4))\<^sup>2 = 11 / 20"
    unfolding sin45_sq cos45_sq by simp
  have kyy: "(1::real) * (sin (pi / 4))\<^sup>2 + 1 / 10 * (cos (pi / 4))\<^sup>2 = 11 / 20"
    unfolding sin45_sq cos45_sq by simp
  have kxy: "((1::real) - 1 / 10) * sin (pi / 4) * cos (pi / 4) = 9 / 20"
    unfolding mult.assoc sincos45 by simp
  from hgrad_solves_darcy [of 1 "1 / 10" 45 "1 / 600" 0]
  obtain gx gy where r: "hgrad 1 (1 / 10) 45 (1 / 600) 0 = Inr (gx, gy)"
    and u: "\<And>x y. 1 / 600 = - (11 / 20 * x + 9 / 20 * y) \<and> 0 = - (9 / 20 * x + 11 / 20 * y)
               \<Longrightarrow> x = gx \<and> y = gy"
    unfolding Let_def angle45 kxx kyy kxy by auto
  have "- 11 / 1200 = gx \<and> 3 / 400 = gy"
    by (rule u) simp
  with r show ?thesis by simp
qed

subsection \<open>Rounding to double precision\<close>

lemma ulp_pos: "0 < ulp x"
  by (simp add: ulp_def)

lemma rne_err: "\<bar>of_int (rne r) - r\<bar> \<le> 1 / 2"
proof -
  have "of_int \<lfloor>r\<rfloor> \<le> r" and "r < of_int \<lfloor>r\<rfloor> + 1" by linarith+
  then show ?thesis
    unfolding rne_def Let_def by (auto split: if_splits)
qed

lemma rne_small:
  assumes "\<bar>r\<bar> < 1 / 2"
  shows "rne r = 0"
proof (cases "0 \<le> r")
  case True
  with assms have "\<lfloor>r\<rfloor> = 0" by (simp add: floor_eq_iff)
  with assms True show ?thesis by (simp add: rne_def)
next
  case False
  with assms have "\<lfloor>r\<rfloor> = - 1" by (simp add: floor_eq_iff)
  with assms False show ?thesis by (simp add: rne_def)
qed

lemma rne_abs_le: "\<bar>of_int (rne r) :: real\<bar> \<le> 2 * \<bar>r\<bar>"
proof (cases "\<bar>r\<bar> < 1 / 2")
  case True
  then show ?thesis by (simp add: rne_small)
next
  case False
  with rne_err [of r] show ?thesis by linarith
qed

lemma fl_zero: "fl 0 = 0"
  by (simp add: fl_def rne_small)

text \<open>Rounding at most doubles the magnitude.\<close>

lemma fl_abs_le: "\<bar>fl x\<bar> \<le> 2 * \<bar>x\<bar>"
proof -
  have "\<bar>fl x\<bar> = \<bar>of_int (rne (x / ulp x))\<bar> * ulp x"
    using ulp_pos [of x] by (simp add: fl_def abs_mult)
  also have "\<dots> \<le> 2 * \<bar>x / ulp x\<bar> * ulp x"
    by (rule mult_right_mono [OF rne_abs_le less_imp_le [OF ulp_pos]])
  also have "\<dots> = 2 * \<bar>x\<bar>"
    using ulp_pos [of x] by simp
  finally show ?thesis .
qed

text \<open>Underflow: below half the smallest subnormal, everything rounds to zero.\<close>

lemma fl_tiny:
  assumes "\<bar>x\<bar> < 2 powr (- 1075)"
  shows "fl x = 0"
proof -
  have "(2::real) powr (- 1075) < 2 powr (- 1022)" by simp
  with assms have "\<bar>x\<bar> < 2 powr (- 1022)" by linarith
  then have e: "expo x = - 1022" by (simp add: expo_def)
  then have u: "ulp x = 2 powr (- 1074)" by (simp add: ulp_def)
  have "2 powr (- 1075) = (1 / 2) * (2::real) powr (- 1074)"
  proof -
    have "(2::real) powr (- 1075) = 2 powr (- 1 + - 1074)" by simp
    also have "\<dots> = 2 powr (- 1) * 2 powr (- 1074)" by (rule powr_add)
    finally show ?thesis by (simp add: powr_minus)
  qed
  with assms have "\<bar>x\<bar> < (1 / 2) * ulp x" by (simp add: u)
  then have "\<bar>x / ulp x\<bar> < 1 / 2"
    using ulp_pos [of x] by (simp add: field_simps)
  then show ?thesis by (simp add: fl_def rne_small)
qed

text \<open>A power of two in the normal range is a double.\<close>

lemma fl_pow2_exact:
  assumes "- 1022 \<le> e"
  shows "fl (2 powr (of_int e)) = 2 powr (of_int e)"
proof -
  let ?x = "(2::real) powr (of_int e)"
  have "\<not> \<bar>?x\<bar> < 2 powr (- 1022)" using assms by simp
  moreover have "\<lfloor>log 2 \<bar>?x\<bar>\<rfloor> = e" by simp
  ultimately have "expo ?x = e" by (simp add: expo_def)
  then have u: "ulp ?x = 2 powr (of_int e - 52)" by (simp add: ulp_def)
  have "?x / ulp ?x = 2 powr 52" unfolding u by (simp add: powr_diff)
  also have "\<dots> = of_int (2 ^ 52)" by (simp add: powr_realpow [symmetric])
  finally have q: "?x / ulp ?x = of_int (2 ^ 52)" .
  have "rne (of_int (2 ^ 52)) = 2 ^ 52" unfolding rne_def Let_def by simp
  then have "fl ?x = of_int (2 ^ 52) * ulp ?x"
    by (simp add: fl_def q del: of_int_power of_int_numeral)
  also have "\<dots> = ?x / ulp ?x * ulp ?x" by (simp only: q)
  also have "\<dots> = ?x" using ulp_pos [of ?x] by simp
  finally show ?thesis .
qed

lemma chk_ok: "\<bar>y\<bar> \<le> 2000 \<Longrightarrow> chk y = Inr y"
proof -
  assume a: "\<bar>y\<bar> \<le> 2000"
  have "(2000::real) < 2 ^ 11" by simp
  also have "(2::real) ^ 11 \<le> 2 ^ 1024" by (rule power_increasing) simp_all
  finally have "\<bar>y\<bar> < 2 ^ 1024" using a by linarith
  then show ?thesis by (simp only: chk_def if_True)
qed

lemma rd_ok: "\<bar>x\<bar> \<le> 1000 \<Longrightarrow> rd x = Inr (fl x)"
  unfolding rd_def using fl_abs_le [of x] by (intro chk_ok) linarith

lemma rd_zero: "rd 0 = Inr 0"
  using rd_ok [of 0] by (simp add: fl_zero)

lemma bind_Inr: "bind_d (Inr v) f = f v"
  by (simp add: bind_d_def)

lemma bind_Inl: "bind_d (Inl e) f = Inl e"
  by (simp add: bind_d_def)

lemma tiny_product:
  fixes K :: real
  assumes K: "K = 2 powr (- 565)"
  shows "4096 * (K * K) < 2 powr (- 1075)"
proof -
  have "K * K = 2 powr (- 565 + - 565)" unfolding K by (simp only: powr_add)
  moreover have "(4096::real) = 2 powr 12"
  proof -
    have "(2::real) powr 12 = 2 ^ 12" by (simp add: powr_realpow [symmetric])
    then show ?thesis by simp
  qed
  ultimately have "4096 * (K * K) = 2 powr (12 + (- 565 + - 565))"
    by (simp only: powr_add)
  also have "\<dots> < 2 powr (- 1075)" by (rule powr_less_mono) simp_all
  finally show ?thesis .
qed

lemma sq_le_4:
  fixes c :: real
  assumes "\<bar>c\<bar> \<le> 2"
  shows "c * c \<le> 4"
proof -
  have "\<bar>c\<bar> * \<bar>c\<bar> \<le> 2 * 2" by (rule mult_mono) (use assms in simp_all)
  then show ?thesis by (simp add: abs_mult_self_eq)
qed

lemma mul_small:
  fixes K x :: real
  assumes "0 < K" and "K \<le> 1" and "\<bar>x\<bar> \<le> 8"
  shows "mul_d K x = Inr (fl (K * x))" and "\<bar>fl (K * x)\<bar> \<le> 16 * K"
proof -
  have b: "\<bar>K * x\<bar> \<le> 8 * K"
    using assms by (simp add: abs_mult mult.commute mult_left_mono)
  then have "\<bar>K * x\<bar> \<le> 1000" using assms by linarith
  then show "mul_d K x = Inr (fl (K * x))" unfolding mul_d_def by (rule rd_ok)
  have "\<bar>fl (K * x)\<bar> \<le> 2 * \<bar>K * x\<bar>" by (rule fl_abs_le)
  also have "\<dots> \<le> 2 * (8 * K)" using b by simp
  finally show "\<bar>fl (K * x)\<bar> \<le> 16 * K" by simp
qed

lemma add_small:
  fixes K a b :: real
  assumes "0 < K" and "K \<le> 1" and "\<bar>a\<bar> \<le> 16 * K" and "\<bar>b\<bar> \<le> 16 * K"
  shows "add_d a b = Inr (fl (a + b))" and "\<bar>fl (a + b)\<bar> \<le> 64 * K"
proof -
  have b: "\<bar>a + b\<bar> \<le> 32 * K" using assms by linarith
  then have "\<bar>a + b\<bar> \<le> 1000" using assms by linarith
  then show "add_d a b = Inr (fl (a + b))" unfolding add_d_def by (rule rd_ok)
  have "\<bar>fl (a + b)\<bar> \<le> 2 * \<bar>a + b\<bar>" by (rule fl_abs_le)
  also have "\<dots> \<le> 2 * (32 * K)" using b by simp
  finally show "\<bar>fl (a + b)\<bar> \<le> 64 * K" by simp
qed

text \<open>
  With \<open>k = k22 = 2 powr (- 565)\<close> (about \<open>8.28e-171\<close>) the product \<^verbatim>\<open>kxx * kyy\<close> underflows to
  zero and \<^verbatim>\<open>kxy\<close> is zero, so \<^verbatim>\<open>det\<close> is zero and the first division raises. This
  holds for every C library whose cosine and sine stay within 2 in magnitude and whose
  square is within a factor 2 of the exact one.
\<close>

lemma hgrad_double_underflow:
  assumes cosb: "\<And>x. \<bar>math_cos L x\<bar> \<le> 2"
    and sinb: "\<And>x. \<bar>math_sin L x\<bar> \<le> 2"
    and powb: "\<And>x. \<bar>float_pow2 L x\<bar> \<le> 2 * (x * x)"
  shows "hgrad_double L (2 powr (- 565)) (2 powr (- 565)) 45 qx qy
           = Inl (Raised ZeroDivisionError)"
proof -
  define K :: real where "K = 2 powr (- 565)"
  have Kpos: "0 < K" by (simp add: K_def)
  have "(2::real) powr (- 565) \<le> 2 powr 0" by (rule powr_mono) simp_all
  then have K1: "K \<le> 1" by (simp add: K_def)
  have pi8: "\<bar>math_pi\<bar> \<le> 8"
    using fl_abs_le [of pi] pi_less_4 pi_gt_zero by (simp add: math_pi_def)
  define t where "t = fl (45 * math_pi)"
  have t: "mul_d 45 math_pi = Inr t"
    unfolding mul_d_def t_def using pi8 by (intro rd_ok) simp
  have tb: "\<bar>t\<bar> \<le> 720"
    unfolding t_def using fl_abs_le [of "45 * math_pi"] pi8 by simp
  define angle where "angle = fl (t / 180)"
  have angle: "div_d t 180 = Inr angle"
    unfolding div_d_def angle_def using tb by (simp add: rd_ok)
  define c where "c = math_cos L angle"
  define s where "s = math_sin L angle"
  have cb: "\<bar>c\<bar> \<le> 2" and sb: "\<bar>s\<bar> \<le> 2"
    by (simp_all add: c_def s_def cosb sinb)
  have c: "chk (math_cos L angle) = Inr c"
    unfolding c_def [symmetric] using cb by (intro chk_ok) simp
  have s: "chk (math_sin L angle) = Inr s"
    unfolding s_def [symmetric] using sb by (intro chk_ok) simp
  define c2 where "c2 = float_pow2 L c"
  define s2 where "s2 = float_pow2 L s"
  have c2b: "\<bar>c2\<bar> \<le> 8" unfolding c2_def using powb [of c] sq_le_4 [OF cb] by linarith
  have s2b: "\<bar>s2\<bar> \<le> 8" unfolding s2_def using powb [of s] sq_le_4 [OF sb] by linarith
  have c2: "chk (float_pow2 L c) = Inr c2"
    unfolding c2_def [symmetric] using c2b by (intro chk_ok) simp
  have s2: "chk (float_pow2 L s) = Inr s2"
    unfolding s2_def [symmetric] using s2b by (intro chk_ok) simp
  define a1 where "a1 = fl (K * c2)"
  define a2 where "a2 = fl (K * s2)"
  have a1: "mul_d K c2 = Inr a1" and a1b: "\<bar>a1\<bar> \<le> 16 * K"
    unfolding a1_def by (rule mul_small [OF Kpos K1 c2b])+
  have a2: "mul_d K s2 = Inr a2" and a2b: "\<bar>a2\<bar> \<le> 16 * K"
    unfolding a2_def by (rule mul_small [OF Kpos K1 s2b])+
  define kxx where "kxx = fl (a1 + a2)"
  define kyy where "kyy = fl (a2 + a1)"
  have kxx: "add_d a1 a2 = Inr kxx" and kxxb: "\<bar>kxx\<bar> \<le> 64 * K"
    unfolding kxx_def by (rule add_small [OF Kpos K1 a1b a2b])+
  have kyy: "add_d a2 a1 = Inr kyy" and kyyb: "\<bar>kyy\<bar> \<le> 64 * K"
    unfolding kyy_def by (rule add_small [OF Kpos K1 a2b a1b])+
  have d: "sub_d K K = Inr 0" by (simp add: sub_d_def rd_zero)
  have z: "mul_d 0 x = Inr 0" for x by (simp add: mul_d_def rd_zero)
  have "\<bar>kxx * kyy\<bar> \<le> (64 * K) * (64 * K)"
    unfolding abs_mult by (rule mult_mono [OF kxxb kyyb]) (use Kpos in simp_all)
  also have "\<dots> = 4096 * (K * K)" by simp
  also have "\<dots> < 2 powr (- 1075)" by (rule tiny_product [OF K_def])
  finally have "fl (kxx * kyy) = 0" by (rule fl_tiny)
  then have p1: "mul_d kxx kyy = Inr 0"
    unfolding mul_d_def rd_def by (simp add: chk_ok)
  have det: "sub_d 0 0 = Inr 0" by (simp add: sub_d_def rd_zero)
  have dv: "div_d kyy 0 = Inl (Raised ZeroDivisionError)" by (simp add: div_d_def)
  show ?thesis
    unfolding hgrad_double_def K_def [symmetric] Let_def
    by (simp only: t angle c s c2 s2 a1 a2 kxx kyy d z p1 det dv bind_Inr bind_Inl)
qed

lemma libm_rounded_bounds:
  "\<bar>math_cos libm_rounded x\<bar> \<le> 2"
  "\<bar>math_sin libm_rounded x\<bar> \<le> 2"
  "\<bar>float_pow2 libm_rounded x\<bar> \<le> 2 * (x * x)"
proof -
  have "\<bar>fl (cos x)\<bar> \<le> 2 * \<bar>cos x\<bar>" by (rule fl_abs_le)
  also have "\<dots> \<le> 2 * 1" by (rule mult_left_mono) simp_all
  finally show "\<bar>math_cos libm_rounded x\<bar> \<le> 2" by (simp add: libm_rounded_def)
  have "\<bar>fl (sin x)\<bar> \<le> 2 * \<bar>sin x\<bar>" by (rule fl_abs_le)
  also have "\<dots> \<le> 2 * 1" by (rule mult_left_mono) simp_all
  finally show "\<bar>math_sin libm_rounded x\<bar> \<le> 2" by (simp add: libm_rounded_def)
  show "\<bar>float_pow2 libm_rounded x\<bar> \<le> 2 * (x * x)"
    using fl_abs_le [of "x * x"] by (simp add: libm_rounded_def abs_mult_self_eq)
qed

text \<open>
  Claim C2, as stated, fails on the code's arithmetic. The call
  \<^verbatim>\<open>hgrad(2.0**-565, 2.0**-565, 45.0, 1.0, 0.0)\<close> has positive conductivities, which are
  doubles, and raises \<^verbatim>\<open>ZeroDivisionError\<close>: in double precision \<^verbatim>\<open>det\<close> is zero there.
\<close>

theorem hgrad_double_divides_by_zero:
  "(0::real) < 2 powr (- 565) \<and>
   fl (2 powr (- 565)) = 2 powr (- 565) \<and>
   hgrad_double libm_rounded (2 powr (- 565)) (2 powr (- 565)) 45 1 0
     = Inl (Raised ZeroDivisionError)"
proof (intro conjI)
  show "(0::real) < 2 powr (- 565)" by simp
  show "fl (2 powr (- 565)) = 2 powr (- 565)"
    using fl_pow2_exact [of "- 565"] by simp
  show "hgrad_double libm_rounded (2 powr (- 565)) (2 powr (- 565)) 45 1 0
     = Inl (Raised ZeroDivisionError)"
    by (rule hgrad_double_underflow) (rule libm_rounded_bounds)+
qed

text \<open>
  Claim C2, amended. Over exact real arithmetic, for positive \<open>k\<close> and \<open>k22\<close> and any
  angle, the determinant \<^verbatim>\<open>det = kxx * kyy - kxy * kyx\<close> that \<^verbatim>\<open>hgrad\<close> computes equals
  \<open>k * k22\<close> and is not zero, so none of the four divisions by \<^verbatim>\<open>det\<close> divides by zero
  and \<^verbatim>\<open>hgrad\<close> returns the pair built from the four quotients.
\<close>

theorem hgrad_real_det_nonzero:
  fixes k k22 angle1 qx qy :: real
  assumes "0 < k" and "0 < k22"
  shows "let a = angle1 * pi / 180;
             kxx = k * (cos a)\<^sup>2 + k22 * (sin a)\<^sup>2;
             kyy = k * (sin a)\<^sup>2 + k22 * (cos a)\<^sup>2;
             kxy = (k - k22) * sin a * cos a;
             kyx = kxy;
             det = kxx * kyy - kxy * kyx
         in det = k * k22 \<and> det \<noteq> 0 \<and>
            hgrad k k22 angle1 qx qy \<noteq> Inl ZeroDivisionError \<and>
            hgrad k k22 angle1 qx qy =
              Inr (- (kyy / det) * qx - (- kxy / det) * qy,
                   - (- kyx / det) * qx - (kxx / det) * qy)"
proof -
  define a where "a = angle1 * pi / 180"
  have d: "(k * (cos a)\<^sup>2 + k22 * (sin a)\<^sup>2) * (k * (sin a)\<^sup>2 + k22 * (cos a)\<^sup>2)
             - (k - k22) * sin a * cos a * ((k - k22) * sin a * cos a) = k * k22"
    by (rule det_algebra) simp
  have nz: "k * k22 \<noteq> 0" using assms by simp
  have r: "hgrad k k22 angle1 qx qy =
      Inr (- ((k * (sin a)\<^sup>2 + k22 * (cos a)\<^sup>2) / (k * k22)) * qx
             - (- ((k - k22) * sin a * cos a) / (k * k22)) * qy,
           - (- ((k - k22) * sin a * cos a) / (k * k22)) * qx
             - ((k * (cos a)\<^sup>2 + k22 * (sin a)\<^sup>2) / (k * k22)) * qy)"
    unfolding hgrad_def Let_def tensor_kxx_def tensor_kyy_def tensor_kxy_def
      a_def [symmetric] d
    using nz by simp
  show ?thesis
    unfolding Let_def a_def [symmetric] d r using nz by simp
qed

theorem hgrad_real_det_nonzero_witness:
  "(0::real) < 2 \<and> (0::real) < 3 \<and> hgrad 2 3 0 1 1 = Inr (- 1 / 2, - 1 / 3)"
  using hgrad_real_det_nonzero [of 2 3 0 1 1] by (simp add: Let_def)

text \<open>
  Claim C8. In the isotropic case \<open>k22 = k\<close> with \<open>k\<close> positive, \<^verbatim>\<open>hgrad\<close> returns
  \<open>(- qx / k, - qy / k)\<close> whatever the angle: the head gradient is antiparallel to the flux.
\<close>

theorem hgrad_isotropic:
  fixes k angle1 qx qy :: real
  assumes "0 < k"
  shows "hgrad k k angle1 qx qy = Inr (- qx / k, - qy / k)"
proof -
  have nz: "k * k \<noteq> 0" using assms by simp
  have sc: "(sin (angle1 * pi / 180))\<^sup>2 + (cos (angle1 * pi / 180))\<^sup>2 = 1" by simp
  have kxx: "tensor_kxx k k (angle1 * pi / 180) = k"
  proof -
    have "tensor_kxx k k (angle1 * pi / 180)
            = k * ((sin (angle1 * pi / 180))\<^sup>2 + (cos (angle1 * pi / 180))\<^sup>2)"
      unfolding tensor_kxx_def by (simp only: distrib_left add.commute)
    then show ?thesis by (simp only: sc mult_1_right)
  qed
  have kyy: "tensor_kyy k k (angle1 * pi / 180) = k"
  proof -
    have "tensor_kyy k k (angle1 * pi / 180)
            = k * ((sin (angle1 * pi / 180))\<^sup>2 + (cos (angle1 * pi / 180))\<^sup>2)"
      unfolding tensor_kyy_def by (simp only: distrib_left)
    then show ?thesis by (simp only: sc mult_1_right)
  qed
  have kxy: "tensor_kxy k k (angle1 * pi / 180) = 0" by (simp add: tensor_kxy_def)
  show ?thesis
    unfolding hgrad_eq [OF nz] kxx kyy kxy using assms by simp
qed

theorem hgrad_isotropic_witness:
  "(0::real) < 2 \<and> hgrad 2 2 30 (1 / 600) 1 = Inr (- 1 / 1200, - 1 / 2)"
  using hgrad_isotropic [of 2 30 "1 / 600" 1] by simp

section \<open>Properties of the notebook workflow\<close>

text \<open>What \<^verbatim>\<open>add_chds\<close> registers in each branch, written out.\<close>

lemma add_chds_base:
  "add_chds g None hy =
     Inr (g\<lparr>packages := packages g @
        [ModflowGwfchd [(0, map (\<lambda>i. (0, i, 1)) left_cells)] ''CHD-LEFT'' ''gwf.left.chd'',
         ModflowGwfchd [(0, map (\<lambda>i. (0, i, 0)) right_cells)] ''CHD-RIGHT'' ''gwf.right.chd'']\<rparr>)"
  by (simp add: add_chds_def register_def model_name_def Let_def)

lemma add_chds_aniso:
  "add_chds g (Some gx) (Some gy) =
     Inr (g\<lparr>packages := packages g @
        [ModflowGwfchd [(0, map (\<lambda>(i, x, y). (0, i, gx * x + gy * y - (gx * 50 + gy * 50 - 1)))
            [(0, 50, 650), (7, 50, 550), (14, 50, 450), (18, 50, 350), (22, 50, 250),
             (26, 50, 150), (33, 50, 50)])] ''CHD-LEFT'' ''gwf.left.chd'',
         ModflowGwfchd [(0, map (\<lambda>(i, x, y). (0, i, gx * x + gy * y - (gx * 50 + gy * 50 - 1)))
            [(6, 650, 650), (13, 650, 550), (17, 650, 450), (21, 650, 350), (25, 650, 250),
             (32, 650, 150), (39, 650, 50)])] ''CHD-RIGHT'' ''gwf.right.chd'',
         ModflowGwfchd [(0, map (\<lambda>(i, x, y). (0, i, gx * x + gy * y - (gx * 50 + gy * 50 - 1)))
            [(1, 150, 650), (2, 250, 650), (3, 350, 650), (4, 450, 650), (5, 550, 650)])]
            ''CHD-TOP'' ''gwf.top.chd'',
         ModflowGwfchd [(0, map (\<lambda>(i, x, y). (0, i, gx * x + gy * y - (gx * 50 + gy * 50 - 1)))
            [(34, 150, 50), (35, 250, 50), (36, 350, 50), (37, 450, 50), (38, 550, 50)])]
            ''CHD-BOTTOM'' ''gwf.bottom.chd'']\<rparr>)"
  by (simp add: add_chds_def register_def model_name_def Let_def
        left_cells_def right_cells_def top_cells_def bottom_cells_def
        enumerate_eq_zip upt_rec numeral_nat)

lemma add_chds_type_error: "add_chds g (Some gx) None = Inl TypeError"
  by (simp add: add_chds_def)

lemma heada_aniso:
  "heada (Some gx) (Some gy) xc yc = Inr (gx * xc + gy * yc - (gx * 50 + gy * 50 - 1))"
  by (simp add: heada_def Let_def)

lemma heada_base: "heada None hy xc yc = Inr (- (1 / 600) * (xc - 50) + 1)"
  by (simp add: heada_def Let_def)

text \<open>The two grids, written out.\<close>

lemma sg1_value:
  "sg1 =
     \<lparr>delr = [100, 100, 100, 100, 100, 100, 100],
      delc = [100, 100, 100, 100, 100, 100, 100],
      top_arr = replicate 7 [0, 0, 0, 0, 0, 0, 0],
      botm_arr = [replicate 7 [- 100, - 100, - 100, - 100, - 100, - 100, - 100]],
      xoff = None, yoff = None,
      idomain =
        [[[1, 1, 1, 1, 1, 1, 1],
          [1, 1, 1, 1, 1, 1, 1],
          [1, 1, 0, 0, 0, 1, 1],
          [1, 1, 0, 0, 0, 1, 1],
          [1, 1, 0, 0, 0, 1, 1],
          [1, 1, 1, 1, 1, 1, 1],
          [1, 1, 1, 1, 1, 1, 1]]]\<rparr>"
  by (simp add: sg1_def Let_def np_ones1_def np_zeros2_def np_ones3_def scale1_def scale3_def
        assign_block_def enumerate_eq_zip upt_rec numeral_nat)

lemma sg2_value:
  "sg2 =
     \<lparr>delr = replicate 9 (100 / 3),
      delc = replicate 9 (100 / 3),
      top_arr = replicate 9 (replicate 9 0),
      botm_arr = [replicate 9 (replicate 9 (- 100))],
      xoff = Some 200, yoff = Some 200,
      idomain = [replicate 9 (replicate 9 1)]\<rparr>"
  by (simp add: sg2_def Let_def np_ones1_def np_zeros2_def np_ones3_def scale1_def scale3_def)

lemma build_sim_base:
  "map_sum id mesh_data (build_sim merge xt3doptions None hy)
     = Inr [Nlay 1, Top 0, Botm (- 100), Gridprops (merge [sg1, sg2])]"
  by (simp add: build_sim_def Let_def add_chds_base register_def mesh_data_def
        disv_mesh_data_def gridprops_def mesh_cells_def length_units_def nlay_def
        top_elev_def botm_def)

lemma build_sim_aniso:
  "map_sum id mesh_data (build_sim merge xt3doptions (Some gx) (Some gy))
     = Inr [Nlay 1, Top 0, Botm (- 100), Gridprops (merge [sg1, sg2])]"
  by (simp add: build_sim_def Let_def add_chds_aniso register_def mesh_data_def
        disv_mesh_data_def gridprops_def mesh_cells_def length_units_def nlay_def
        top_elev_def botm_def)

text \<open>
  Claim C3, as stated, fails in its last part, that no other mesh data source is used.
  In the simulation that the call \<^verbatim>\<open>build_sim()\<close> returns (here with the merge left as
  the list of the two grids), the DISV package holds, besides the merged grid
  properties, the layer count 1, the top 0 and the bottom \<open>- 100\<close>, which \<^verbatim>\<open>build_sim\<close>
  reads from the notebook globals \<^verbatim>\<open>nlay\<close>, \<^verbatim>\<open>top\<close> and \<^verbatim>\<open>botm\<close>.
\<close>

theorem build_sim_other_mesh_data:
  "map_sum id mesh_data (build_sim id None None None)
     = Inr [Nlay 1, Top 0, Botm (- 100), Gridprops [sg1, sg2]] \<and>
   map_sum id mesh_data (build_sim id None None None) \<noteq> Inr [Gridprops [sg1, sg2]]"
  unfolding build_sim_base by simp

text \<open>
  Claim C3, amended. The notebook makes exactly two structured-grid descriptions, \<open>sg1\<close>
  (7 by 7 cells of 100, with the 3 by 3 hole) and \<open>sg2\<close> (9 by 9 cells of 100/3 at offset
  200, 200), and merges them by one library call on the list of the two. In the
  simulation that \<^verbatim>\<open>build_sim\<close> returns, in either of the ways the notebook calls it,
  the mesh data of the only DISV package are the result of that merge together with the
  notebook globals \<^verbatim>\<open>nlay = 1\<close>, \<^verbatim>\<open>top = 0.0\<close> and \<^verbatim>\<open>botm = -100.0\<close>, and nothing else.
\<close>

theorem build_sim_mesh_inputs:
  "fst (mesh_cells merge) =
     [StructuredGrid sg1, StructuredGrid sg2, Gridlist_to_disv_gridprops [sg1, sg2]] \<and>
   snd (mesh_cells merge) = merge [sg1, sg2] \<and>
   sg1 =
     \<lparr>delr = [100, 100, 100, 100, 100, 100, 100],
      delc = [100, 100, 100, 100, 100, 100, 100],
      top_arr = replicate 7 [0, 0, 0, 0, 0, 0, 0],
      botm_arr = [replicate 7 [- 100, - 100, - 100, - 100, - 100, - 100, - 100]],
      xoff = None, yoff = None,
      idomain =
        [[[1, 1, 1, 1, 1, 1, 1],
          [1, 1, 1, 1, 1, 1, 1],
          [1, 1, 0, 0, 0, 1, 1],
          [1, 1, 0, 0, 0, 1, 1],
          [1, 1, 0, 0, 0, 1, 1],
          [1, 1, 1, 1, 1, 1, 1],
          [1, 1, 1, 1, 1, 1, 1]]]\<rparr> \<and>
   sg2 =
     \<lparr>delr = replicate 9 (100 / 3),
      delc = replicate 9 (100 / 3),
      top_arr = replicate 9 (replicate 9 0),
      botm_arr = [replicate 9 (replicate 9 (- 100))],
      xoff = Some 200, yoff = Some 200,
      idomain = [replicate 9 (replicate 9 1)]\<rparr> \<and>
   map_sum id mesh_data (build_sim merge xt3doptions None hy)
     = Inr [Nlay 1, Top 0, Botm (- 100), Gridprops (merge [sg1, sg2])] \<and>
   map_sum id mesh_data (build_sim merge xt3doptions (Some gx) (Some gy))
     = Inr [Nlay 1, Top 0, Botm (- 100), Gridprops (merge [sg1, sg2])]"
proof (intro conjI)
  show "fst (mesh_cells merge) =
     [StructuredGrid sg1, StructuredGrid sg2, Gridlist_to_disv_gridprops [sg1, sg2]]"
    by (simp add: mesh_cells_def Let_def)
  show "snd (mesh_cells merge) = merge [sg1, sg2]"
    by (simp add: mesh_cells_def Let_def)
qed (rule sg1_value sg2_value build_sim_base build_sim_aniso)+

text \<open>
  Claim C9. The cell lists of the constant-head packages that \<^verbatim>\<open>add_chds\<close> registers
  are pairwise disjoint: left and right in the base branch; left, right, top and bottom
  in the anisotropic branch. No cell appears twice over all the packages of a branch.
\<close>

theorem add_chds_cells_disjoint:
  "(\<exists>L R. add_chds g None hy = Inr (g\<lparr>packages := packages g @ [L, R]\<rparr>) \<and>
      chd_cells L = [0, 7, 14, 18, 22, 26, 33] \<and>
      chd_cells R = [6, 13, 17, 21, 25, 32, 39] \<and>
      set (chd_cells L) \<inter> set (chd_cells R) = {} \<and>
      distinct (chd_cells L @ chd_cells R)) \<and>
   (\<exists>L R T B.
      add_chds g (Some gx) (Some gy) = Inr (g\<lparr>packages := packages g @ [L, R, T, B]\<rparr>) \<and>
      chd_cells L = [0, 7, 14, 18, 22, 26, 33] \<and>
      chd_cells R = [6, 13, 17, 21, 25, 32, 39] \<and>
      chd_cells T = [1, 2, 3, 4, 5] \<and>
      chd_cells B = [34, 35, 36, 37, 38] \<and>
      set (chd_cells L) \<inter> set (chd_cells R) = {} \<and>
      set (chd_cells L) \<inter> set (chd_cells T) = {} \<and>
      set (chd_cells L) \<inter> set (chd_cells B) = {} \<and>
      set (chd_cells R) \<inter> set (chd_cells T) = {} \<and>
      set (chd_cells R) \<inter> set (chd_cells B) = {} \<and>
      set (chd_cells T) \<inter> set (chd_cells B) = {} \<and>
      distinct (chd_cells L @ chd_cells R @ chd_cells T @ chd_cells B))"
proof (rule conjI)
  show "\<exists>L R. add_chds g None hy = Inr (g\<lparr>packages := packages g @ [L, R]\<rparr>) \<and>
      chd_cells L = [0, 7, 14, 18, 22, 26, 33] \<and>
      chd_cells R = [6, 13, 17, 21, 25, 32, 39] \<and>
      set (chd_cells L) \<inter> set (chd_cells R) = {} \<and>
      distinct (chd_cells L @ chd_cells R)"
    unfolding add_chds_base
    by (intro exI conjI, rule refl)
       (simp_all add: chd_cells_def chd_records_def left_cells_def right_cells_def)
  show "\<exists>L R T B.
      add_chds g (Some gx) (Some gy) = Inr (g\<lparr>packages := packages g @ [L, R, T, B]\<rparr>) \<and>
      chd_cells L = [0, 7, 14, 18, 22, 26, 33] \<and>
      chd_cells R = [6, 13, 17, 21, 25, 32, 39] \<and>
      chd_cells T = [1, 2, 3, 4, 5] \<and>
      chd_cells B = [34, 35, 36, 37, 38] \<and>
      set (chd_cells L) \<inter> set (chd_cells R) = {} \<and>
      set (chd_cells L) \<inter> set (chd_cells T) = {} \<and>
      set (chd_cells L) \<inter> set (chd_cells B) = {} \<and>
      set (chd_cells R) \<inter> set (chd_cells T) = {} \<and>
      set (chd_cells R) \<inter> set (chd_cells B) = {} \<and>
      set (chd_cells T) \<inter> set (chd_cells B) = {} \<and>
      distinct (chd_cells L @ chd_cells R @ chd_cells T @ chd_cells B)"
    unfolding add_chds_aniso
    by (intro exI conjI, rule refl)
       (simp_all add: chd_cells_def chd_records_def)
qed

text \<open>
  Claim C10. The analytic head of \<^verbatim>\<open>plot_results\<close> agrees with the heads that
  \<^verbatim>\<open>add_chds\<close> prescribes. Base case: it is 1 at \<open>x = 50\<close> and 0 at \<open>x = 650\<close>, the values
  of all left and all right records. Anisotropic case: every record of the four packages
  carries the value of the analytic head at the cell centre that \<^verbatim>\<open>add_chds\<close> hardwires
  for it.
\<close>

theorem heada_matches_chds:
  "heada None hy 50 yc = Inr 1 \<and> heada None hy 650 yc = Inr 0 \<and>
   (\<exists>L R. add_chds g None hy = Inr (g\<lparr>packages := packages g @ [L, R]\<rparr>) \<and>
      chd_pname L = ''CHD-LEFT'' \<and> chd_pname R = ''CHD-RIGHT'' \<and>
      map Inr (chd_heads L) = replicate 7 (heada None hy 50 yc) \<and>
      map Inr (chd_heads R) = replicate 7 (heada None hy 650 yc)) \<and>
   (\<exists>L R T B.
      add_chds g (Some gx) (Some gy) = Inr (g\<lparr>packages := packages g @ [L, R, T, B]\<rparr>) \<and>
      map (\<lambda>(lay, cell, head). (cell, Inr head)) (chd_records L) =
        map (\<lambda>(cell, x, y). (cell, heada (Some gx) (Some gy) x y))
          [(0, 50, 650), (7, 50, 550), (14, 50, 450), (18, 50, 350), (22, 50, 250),
           (26, 50, 150), (33, 50, 50)] \<and>
      map (\<lambda>(lay, cell, head). (cell, Inr head)) (chd_records R) =
        map (\<lambda>(cell, x, y). (cell, heada (Some gx) (Some gy) x y))
          [(6, 650, 650), (13, 650, 550), (17, 650, 450), (21, 650, 350), (25, 650, 250),
           (32, 650, 150), (39, 650, 50)] \<and>
      map (\<lambda>(lay, cell, head). (cell, Inr head)) (chd_records T) =
        map (\<lambda>(cell, x, y). (cell, heada (Some gx) (Some gy) x y))
          [(1, 150, 650), (2, 250, 650), (3, 350, 650), (4, 450, 650), (5, 550, 650)] \<and>
      map (\<lambda>(lay, cell, head). (cell, Inr head)) (chd_records B) =
        map (\<lambda>(cell, x, y). (cell, heada (Some gx) (Some gy) x y))
          [(34, 150, 50), (35, 250, 50), (36, 350, 50), (37, 450, 50), (38, 550, 50)])"
proof (intro conjI)
  show "heada None hy 50 yc = Inr 1" by (simp add: heada_base)
  show "heada None hy 650 yc = Inr 0" by (simp add: heada_base)
  show "\<exists>L R. add_chds g None hy = Inr (g\<lparr>packages := packages g @ [L, R]\<rparr>) \<and>
      chd_pname L = ''CHD-LEFT'' \<and> chd_pname R = ''CHD-RIGHT'' \<and>
      map Inr (chd_heads L) = replicate 7 (heada None hy 50 yc) \<and>
      map Inr (chd_heads R) = replicate 7 (heada None hy 650 yc)"
    unfolding add_chds_base
    by (intro exI conjI, rule refl)
       (simp_all add: chd_pname_def chd_heads_def chd_records_def left_cells_def
          right_cells_def heada_base numeral_nat)
  show "\<exists>L R T B.
      add_chds g (Some gx) (Some gy) = Inr (g\<lparr>packages := packages g @ [L, R, T, B]\<rparr>) \<and>
      map (\<lambda>(lay, cell, head). (cell, Inr head)) (chd_records L) =
        map (\<lambda>(cell, x, y). (cell, heada (Some gx) (Some gy) x y))
          [(0, 50, 650), (7, 50, 550), (14, 50, 450), (18, 50, 350), (22, 50, 250),
           (26, 50, 150), (33, 50, 50)] \<and>
      map (\<lambda>(lay, cell, head). (cell, Inr head)) (chd_records R) =
        map (\<lambda>(cell, x, y). (cell, heada (Some gx) (Some gy) x y))
          [(6, 650, 650), (13, 650, 550), (17, 650, 450), (21, 650, 350), (25, 650, 250),
           (32, 650, 150), (39, 650, 50)] \<and>
      map (\<lambda>(lay, cell, head). (cell, Inr head)) (chd_records T) =
        map (\<lambda>(cell, x, y). (cell, heada (Some gx) (Some gy) x y))
          [(1, 150, 650), (2, 250, 650), (3, 350, 650), (4, 450, 650), (5, 550, 650)] \<and>
      map (\<lambda>(lay, cell, head). (cell, Inr head)) (chd_records B) =
        map (\<lambda>(cell, x, y). (cell, heada (Some gx) (Some gy) x y))
          [(34, 150, 50), (35, 250, 50), (36, 350, 50), (37, 450, 50), (38, 550, 50)]"
    unfolding add_chds_aniso
    by (intro exI conjI, rule refl)
       (simp_all add: chd_records_def heada_aniso)
qed

section \<open>Properties of the batch script\<close>

text \<open>The scheduler options and the commands of the script, read off its lines.\<close>

lemma slurm_directives:
  "sbatch_directives slurm_batch =
     [(''job-name'', ''1803_1804''), (''nodes'', ''1''), (''ntasks'', ''1''),
      (''account'', ''impd''), (''time'', ''00:10:00''), (''output'', ''slurm-%j.out''),
      (''mail-type'', ''FAIL''), (''mail-user'', ''jdhughes@usgs.gov'')]"
  by (simp add: sbatch_directives_def slurm_batch_def is_command_line_def is_blank_def
        is_comment_def starts_with_def)

lemma slurm_commands:
  "script_commands slurm_batch =
     [[''module'', ''load'', ''modflow/6.6.0.dev0''],
      [''srun'', ''mf6'', ''-p''],
      [''zip'', ''../../archive/1803_1804_001p_$(date -Ihours)'', ''ngwm.ims'',
       ''mfsim.lst'', ''ims.inner.csv'']]"
  by (simp add: script_commands_def slurm_batch_def is_command_line_def is_blank_def
        is_comment_def starts_with_def)

lemma time_limit_600: "time_limit_seconds ''00:10:00'' = Some 600"
  by (simp add: time_limit_seconds_def parse_number_def digit_value_def)

lemma expand_archive_word:
  "expand run Plain ''../../archive/1803_1804_001p_$(date -Ihours)''
     = ''../../archive/1803_1804_001p_'' @ run ''date -Ihours''"
  by simp

text \<open>
  Claim C4. The script asks for one node and one task, declares the time limit
  \<^verbatim>\<open>00:10:00\<close> (600 seconds), and runs the simulator once: the only \<^verbatim>\<open>srun\<close> command is
  \<^verbatim>\<open>srun mf6 -p\<close>, and from it to the end the commands are that run and then the
  archiving \<^verbatim>\<open>zip\<close>.
\<close>

theorem slurm_one_node_one_run:
  "directive_values ''nodes'' (sbatch_directives slurm_batch) = [''1''] \<and>
   directive_values ''ntasks'' (sbatch_directives slurm_batch) = [''1''] \<and>
   directive_values ''time'' (sbatch_directives slurm_batch) = [''00:10:00''] \<and>
   time_limit_seconds ''00:10:00'' = Some 600 \<and>
   filter is_srun (script_commands slurm_batch) = [[''srun'', ''mf6'', ''-p'']] \<and>
   dropWhile (\<lambda>c. \<not> is_srun c) (script_commands slurm_batch) =
     [[''srun'', ''mf6'', ''-p''],
      [''zip'', ''../../archive/1803_1804_001p_$(date -Ihours)'', ''ngwm.ims'',
       ''mfsim.lst'', ''ims.inner.csv'']] \<and>
   filter is_zip (script_commands slurm_batch) =
     [[''zip'', ''../../archive/1803_1804_001p_$(date -Ihours)'', ''ngwm.ims'',
       ''mfsim.lst'', ''ims.inner.csv'']]"
  unfolding slurm_directives slurm_commands
  by (simp add: directive_values_def time_limit_600 is_srun_def is_zip_def)

text \<open>
  Claim C5. The one \<^verbatim>\<open>zip\<close> command comes after the run and is the last command. Whatever
  \<^verbatim>\<open>date -Ihours\<close> prints, the command archives the three files \<^verbatim>\<open>ngwm.ims\<close>,
  \<^verbatim>\<open>mfsim.lst\<close> and \<^verbatim>\<open>ims.inner.csv\<close> into one archive, whose name ends with the printed
  date and whose directory is \<^verbatim>\<open>../../archive\<close>: from a working directory \<open>base/a/b\<close> that
  is \<open>base/archive\<close>.
\<close>

theorem slurm_archive_step:
  "filter is_zip (script_commands slurm_batch) = [last (script_commands slurm_batch)] \<and>
   filter is_srun (butlast (script_commands slurm_batch)) = [[''srun'', ''mf6'', ''-p'']] \<and>
   expand_command run (last (script_commands slurm_batch)) =
     [''zip'', ''../../archive/1803_1804_001p_'' @ run ''date -Ihours'',
      ''ngwm.ims'', ''mfsim.lst'', ''ims.inner.csv''] \<and>
   dir_components (last (script_commands slurm_batch) ! 1) = [''..'', ''..'', ''archive''] \<and>
   base_name (last (script_commands slurm_batch) ! 1) = ''1803_1804_001p_$(date -Ihours)'' \<and>
   resolve (base @ [a, b]) (dir_components (last (script_commands slurm_batch) ! 1))
     = base @ [''archive'']"
  unfolding slurm_commands
  by (simp add: is_zip_def is_srun_def expand_command_def dir_components_def base_name_def
        butlast_append)

text \<open>
  Claim C6. The script declares a job name, a node count, a task count, a time limit, an
  output path, and a notification address for failures. It loads one module,
  \<^verbatim>\<open>modflow/6.6.0.dev0\<close>, and that is all it does before the run.
\<close>

theorem slurm_declarations:
  "directive_values ''job-name'' (sbatch_directives slurm_batch) = [''1803_1804''] \<and>
   directive_values ''nodes'' (sbatch_directives slurm_batch) = [''1''] \<and>
   directive_values ''ntasks'' (sbatch_directives slurm_batch) = [''1''] \<and>
   directive_values ''time'' (sbatch_directives slurm_batch) = [''00:10:00''] \<and>
   directive_values ''output'' (sbatch_directives slurm_batch) = [''slurm-%j.out''] \<and>
   directive_values ''mail-type'' (sbatch_directives slurm_batch) = [''FAIL''] \<and>
   directive_values ''mail-user'' (sbatch_directives slurm_batch) = [''jdhughes@usgs.gov''] \<and>
   filter is_module_load (script_commands slurm_batch)
     = [[''module'', ''load'', ''modflow/6.6.0.dev0'']] \<and>
   takeWhile (\<lambda>c. \<not> is_srun c) (script_commands slurm_batch)
     = [[''module'', ''load'', ''modflow/6.6.0.dev0'']]"
  unfolding slurm_directives slurm_commands
  by (simp add: directive_values_def is_module_load_def is_srun_def)

text \<open>
  What the script leaves to the scheduler: it asks for mail on the event type \<^verbatim>\<open>FAIL\<close>
  and no other, to one address (the value has no comma), and none of its commands tests
  or reacts to the failure of another. What the scheduler then does when the time limit
  is exceeded is not in the script.
\<close>

lemma slurm_mail_fail_only:
  "directive_values ''mail-type'' (sbatch_directives slurm_batch) = [''FAIL''] \<and>
   map (split_on CHR '','' []) (directive_values ''mail-user'' (sbatch_directives slurm_batch))
     = [[''jdhughes@usgs.gov'']] \<and>
   error_handling_words (script_commands slurm_batch) = []"
  unfolding slurm_directives slurm_commands
  by (simp add: directive_values_def error_handling_words_def control_words_def)

end
